theory Spec2Isabelle
  imports Complex_Main
begin

section \<open>Data model of the fly-by mission node\<close>

text \<open>
  The embedding follows \<open>MissionFlyByNode\<close> (the mission node of a fly-by around a target
  object) and the contact-station part of \<open>generateMissionsDom\<close>.
  JavaScript numbers are idealised as real numbers: no rounding, no NaN, no infinities.
\<close>

text \<open>The source's \<open>const enum FlyByState\<close>.\<close>

datatype FlyByState = NOT_IN_SYSTEM | TOO_FAR_IN_SYSTEM | CLOSE_ENOUGH

text \<open>
  Modelled from the spec: the declaration of \<open>OrbitalObjectType\<close> is not part of the
  sources at hand. The ten members named by \<open>updateState\<close> are constructors of their own;
  \<open>OTHER_OBJECT_TYPE\<close> stands for every member the switch does not name.
\<close>

datatype OrbitalObjectType =
    STAR
  | TELLURIC_PLANET
  | TELLURIC_SATELLITE
  | GAS_PLANET
  | MANDELBULB
  | JULIA_SET
  | SPACE_STATION
  | SPACE_ELEVATOR
  | NEUTRON_STAR
  | BLACK_HOLE
  | OTHER_OBJECT_TYPE nat

text \<open>
  Modelled from the spec: \<open>StarSystemCoordinates\<close> is a value type compared structurally;
  its declaration is not at hand, so it is the type parameter \<open>'c\<close>. A \<open>UniverseObjectId\<close>
  is the coordinates of a star system plus an in-system object path (type parameter \<open>'p\<close>).
\<close>

record ('c, 'p) UniverseObjectId =
  starSystemCoordinates :: 'c
  localPath :: 'p

text \<open>
  Modelled from the spec: \<open>starSystemCoordinatesEquals\<close> and \<open>universeObjectIdEquals\<close>
  are structural equality; the second compares the embedded coordinates, then the local
  object path.
\<close>

definition starSystemCoordinatesEquals :: "'c \<Rightarrow> 'c \<Rightarrow> bool" where
  "starSystemCoordinatesEquals a b = (a = b)"

definition universeObjectIdEquals ::
  "('c, 'p) UniverseObjectId \<Rightarrow> ('c, 'p) UniverseObjectId \<Rightarrow> bool" where
  "universeObjectIdEquals a b =
     (starSystemCoordinatesEquals (starSystemCoordinates a) (starSystemCoordinates b)
      \<and> localPath a = localPath b)"

text \<open>
  The vector type of the rendering library and its \<open>Vector3.Distance\<close>: the square root of
  the sum of the squared coordinate differences.
\<close>

datatype Vector3 = Vector3 real real real

fun Distance :: "Vector3 \<Rightarrow> Vector3 \<Rightarrow> real" where
  "Distance (Vector3 x1 y1 z1) (Vector3 x2 y2 z2) =
     sqrt ((x1 - x2) * (x1 - x2) + (y1 - y2) * (y1 - y2) + (z1 - z2) * (z1 - z2))"

text \<open>
  What \<open>updateState\<close> reads of a live orbital object: \<open>model.type\<close>,
  \<open>getTransform().getAbsolutePosition()\<close> and \<open>getBoundingRadius()\<close>.
\<close>

record OrbitalObject =
  modelType :: OrbitalObjectType
  getAbsolutePosition :: Vector3
  getBoundingRadius :: real

text \<open>
  The loaded star system: its model carries the coordinates; the orbital objects are
  found by their in-system path.
\<close>

record 'c StarSystemModel =
  coordinates :: 'c

record ('c, 'p) StarSystemController =
  model :: "'c StarSystemModel"
  orbitalObjects :: "'p \<rightharpoonup> OrbitalObject"

text \<open>
  Modelled from the spec: \<open>getObjectBySystemId\<close> resolves an identifier in a loaded
  system and answers the live object, or \<open>null\<close> (here \<open>None\<close>) when the local path of the
  identifier matches nothing in that system.
\<close>

definition getObjectBySystemId ::
  "('c, 'p) UniverseObjectId \<Rightarrow> ('c, 'p) StarSystemController \<Rightarrow> OrbitalObject option" where
  "getObjectBySystemId universeObjectId starSystem =
     orbitalObjects starSystem (localPath universeObjectId)"

record ('c, 'p) MissionContext =
  currentSystem :: "('c, 'p) StarSystemController"
  playerPosition :: Vector3

text \<open>
  Modelled from the spec: \<open>MissionNodeType\<close> is an enum of which the source names
  \<open>FLY_BY\<close> only; \<open>OTHER_NODE_TYPE\<close> stands for the other members. A
  \<open>MissionNodeSerialized\<close> has a type and a list of serialized children.
\<close>

datatype MissionNodeType = FLY_BY | OTHER_NODE_TYPE nat

datatype MissionNodeSerialized =
  MissionNodeSerialized MissionNodeType "MissionNodeSerialized list"

text \<open>
  \<open>MissionFlyByNodeSerialized\<close>, the intersection of \<open>MissionNodeSerialized\<close> with
  \<open>{objectId, state}\<close>. Its fields carry the prefix \<open>ser_\<close> since the node itself has
  fields \<open>objectId\<close> and \<open>state\<close>.
\<close>

record ('c, 'p) MissionFlyByNodeSerialized =
  ser_type :: MissionNodeType
  ser_children :: "MissionNodeSerialized list"
  ser_objectId :: "('c, 'p) UniverseObjectId"
  ser_state :: FlyByState

text \<open>The three fields of the class \<open>MissionFlyByNode\<close>.\<close>

record ('c, 'p) MissionFlyByNode =
  state :: FlyByState
  objectId :: "('c, 'p) UniverseObjectId"
  targetSystemCoordinates :: 'c

text \<open>
  A \<open>MissionNode\<close> is a fly-by node or a node of another variant, of which nothing
  but its being no \<open>MissionFlyByNode\<close> is used.
\<close>

datatype ('c, 'p, 'v) MissionNode =
    FlyByNode "('c, 'p) MissionFlyByNode"
  | OtherVariantNode 'v

text \<open>The only exception of the class: the target object was not found.\<close>

datatype ('c, 'p) error = CouldNotFindObject "('c, 'p) UniverseObjectId"


section \<open>Operations of the fly-by mission node\<close>

text \<open>The constructor; the field initialiser sets the state to \<open>NOT_IN_SYSTEM\<close>.\<close>

definition newMissionFlyByNode :: "('c, 'p) UniverseObjectId \<Rightarrow> ('c, 'p) MissionFlyByNode" where
  "newMissionFlyByNode oid =
     \<lparr> state = NOT_IN_SYSTEM, objectId = oid,
       targetSystemCoordinates = starSystemCoordinates oid \<rparr>"

definition setState :: "FlyByState \<Rightarrow> ('c, 'p) MissionFlyByNode \<Rightarrow> ('c, 'p) MissionFlyByNode" where
  "setState s n = n\<lparr> state := s \<rparr>"

definition isCompleted :: "('c, 'p) MissionFlyByNode \<Rightarrow> bool" where
  "isCompleted n = (state n = CLOSE_ENOUGH)"

definition equals :: "('c, 'p) MissionFlyByNode \<Rightarrow> ('c, 'p, 'v) MissionNode \<Rightarrow> bool" where
  "equals n other =
     (case other of
        OtherVariantNode v \<Rightarrow> False
      | FlyByNode m \<Rightarrow> universeObjectIdEquals (objectId n) (objectId m))"

text \<open>
  \<open>updateState\<close> in state-passing style: the result is the node after the call, or the
  error thrown. No field is assigned before the \<open>throw\<close>, so a call that throws leaves the
  node as it was.
\<close>

definition updateState ::
  "('c, 'p) MissionContext \<Rightarrow> ('c, 'p) MissionFlyByNode
     \<Rightarrow> ('c, 'p) error + ('c, 'p) MissionFlyByNode" where
  "updateState context n =
     (if isCompleted n then Inr n
      else
        let currentSystemModel = model (currentSystem context) in
        if \<not> starSystemCoordinatesEquals (coordinates currentSystemModel)
                 (targetSystemCoordinates n)
        then Inr (n\<lparr> state := NOT_IN_SYSTEM \<rparr>)
        else
          case getObjectBySystemId (objectId n) (currentSystem context) of
            None \<Rightarrow> Inl (CouldNotFindObject (objectId n))
          | Some targetObject \<Rightarrow>
              let distance = Distance (playerPosition context)
                               (getAbsolutePosition targetObject);
                  thresholdMultiplier =
                    (case modelType targetObject of
                       STAR \<Rightarrow> 3
                     | TELLURIC_PLANET \<Rightarrow> 3
                     | TELLURIC_SATELLITE \<Rightarrow> 3
                     | GAS_PLANET \<Rightarrow> 3
                     | MANDELBULB \<Rightarrow> 3
                     | JULIA_SET \<Rightarrow> 3
                     | SPACE_STATION \<Rightarrow> 3
                     | SPACE_ELEVATOR \<Rightarrow> 3
                     | NEUTRON_STAR \<Rightarrow> 50
                     | BLACK_HOLE \<Rightarrow> 10
                     | OTHER_OBJECT_TYPE k \<Rightarrow> 1);
                  distanceThreshold = getBoundingRadius targetObject * thresholdMultiplier
              in
                if distance < distanceThreshold
                then Inr (n\<lparr> state := CLOSE_ENOUGH \<rparr>)
                else Inr (n\<lparr> state := TOO_FAR_IN_SYSTEM \<rparr>))"

text \<open>A run of calls of \<open>updateState\<close>, one per context; it ends at the first throw.\<close>

fun updateStates ::
  "('c, 'p) MissionContext list \<Rightarrow> ('c, 'p) MissionFlyByNode
     \<Rightarrow> ('c, 'p) error + ('c, 'p) MissionFlyByNode" where
  "updateStates [] n = Inr n"
| "updateStates (context # contexts) n =
     (case updateState context n of
        Inl e \<Rightarrow> Inl e
      | Inr n' \<Rightarrow> updateStates contexts n')"

definition getTargetSystems :: "('c, 'p) MissionFlyByNode \<Rightarrow> 'c list" where
  "getTargetSystems n = [targetSystemCoordinates n]"

definition serialize :: "('c, 'p) MissionFlyByNode \<Rightarrow> ('c, 'p) MissionFlyByNodeSerialized" where
  "serialize n =
     \<lparr> ser_type = FLY_BY, ser_children = [], ser_objectId = objectId n, ser_state = state n \<rparr>"


text \<open>
  The node after a call of \<open>updateState\<close>, whether the call returned or threw: a call
  that throws has assigned nothing.
\<close>

definition nodeAfterUpdate ::
  "('c, 'p) MissionContext \<Rightarrow> ('c, 'p) MissionFlyByNode \<Rightarrow> ('c, 'p) MissionFlyByNode" where
  "nodeAfterUpdate context n =
     (case updateState context n of Inl e \<Rightarrow> n | Inr n' \<Rightarrow> n')"

text \<open>
  The methods of the class as operations on a node. The bodies of \<open>isCompleted\<close>,
  \<open>equals\<close>, \<open>describe\<close>, \<open>describeNextTask\<close>, \<open>getTargetSystems\<close> and \<open>serialize\<close>
  assign no field, so performing them leaves the node as it is; \<open>setState\<close> and
  \<open>updateState\<close> are the two methods with an assignment.
\<close>

datatype ('c, 'p, 'v) operation =
    SetState FlyByState
  | IsCompleted
  | Equals "('c, 'p, 'v) MissionNode"
  | UpdateState "('c, 'p) MissionContext"
  | Describe 'c
  | DescribeNextTask "('c, 'p) MissionContext"
  | GetTargetSystems
  | Serialize

fun perform ::
  "('c, 'p, 'v) operation \<Rightarrow> ('c, 'p) MissionFlyByNode \<Rightarrow> ('c, 'p) MissionFlyByNode" where
  "perform (SetState s) n = setState s n"
| "perform IsCompleted n = n"
| "perform (Equals other) n = n"
| "perform (UpdateState context) n = nodeAfterUpdate context n"
| "perform (Describe originSystemCoordinates) n = n"
| "perform (DescribeNextTask context) n = n"
| "perform GetTargetSystems n = n"
| "perform Serialize n = n"

fun performAll ::
  "('c, 'p, 'v) operation list \<Rightarrow> ('c, 'p) MissionFlyByNode \<Rightarrow> ('c, 'p) MissionFlyByNode" where
  "performAll [] n = n"
| "performAll (operation # operations) n = performAll operations (perform operation n)"


text \<open>
  The lookup table of threshold multipliers in the words of the specification: 3 for
  planet, star and station class bodies and the two anomalies, 50 for neutron stars, 10 for
  black holes, 1 otherwise.
\<close>

definition specThresholdMultiplier :: "OrbitalObjectType \<Rightarrow> real" where
  "specThresholdMultiplier t =
     (if t \<in> {STAR, TELLURIC_PLANET, TELLURIC_SATELLITE, GAS_PLANET, MANDELBULB, JULIA_SET,
               SPACE_STATION, SPACE_ELEVATOR} then 3
      else if t = NEUTRON_STAR then 50
      else if t = BLACK_HOLE then 10
      else 1)"


section \<open>Contact stations of a space station\<close>






section \<open>Example values\<close>

text \<open>
  A star of bounding radius 10 at the origin of the system with coordinates 7, at the
  local path 0; a neutron star at the local path 1; a system with the same coordinates
  and no object; and a system with other coordinates.
\<close>

definition exampleId :: "(int, nat) UniverseObjectId" where
  "exampleId = \<lparr> starSystemCoordinates = 7, localPath = 0 \<rparr>"

definition exampleStar :: OrbitalObject where
  "exampleStar =
     \<lparr> modelType = STAR, getAbsolutePosition = Vector3 0 0 0, getBoundingRadius = 10 \<rparr>"

definition exampleNeutronStar :: OrbitalObject where
  "exampleNeutronStar =
     \<lparr> modelType = NEUTRON_STAR, getAbsolutePosition = Vector3 0 0 0, getBoundingRadius = 1 \<rparr>"

definition exampleSystem :: "(int, nat) StarSystemController" where
  "exampleSystem =
     \<lparr> model = \<lparr> coordinates = 7 \<rparr>,
       orbitalObjects = [0 \<mapsto> exampleStar, 1 \<mapsto> exampleNeutronStar] \<rparr>"

definition emptySystem :: "(int, nat) StarSystemController" where
  "emptySystem = \<lparr> model = \<lparr> coordinates = 7 \<rparr>, orbitalObjects = Map.empty \<rparr>"

definition otherSystem :: "(int, nat) StarSystemController" where
  "otherSystem = \<lparr> model = \<lparr> coordinates = 8 \<rparr>, orbitalObjects = Map.empty \<rparr>"






definition exampleContext :: "(int, nat) StarSystemController \<Rightarrow> real \<Rightarrow> (int, nat) MissionContext" where
  "exampleContext system a = \<lparr> currentSystem = system, playerPosition = Vector3 a 0 0 \<rparr>"


section \<open>Basic facts about updateState\<close>

lemma Distance_on_axis: "Distance (Vector3 a 0 0) (Vector3 0 0 0) = \<bar>a\<bar>"
  by simp

lemma updateState_completed:
  "state n = CLOSE_ENOUGH \<Longrightarrow> updateState context n = Inr n"
  by (simp add: updateState_def isCompleted_def)

lemma updateStates_completed:
  "state n = CLOSE_ENOUGH \<Longrightarrow> updateStates contexts n = Inr n"
  by (induction contexts) (simp_all add: updateState_completed)

lemma updateState_not_in_system:
  assumes "state n \<noteq> CLOSE_ENOUGH"
    and "coordinates (model (currentSystem context)) \<noteq> targetSystemCoordinates n"
  shows "updateState context n = Inr (n\<lparr> state := NOT_IN_SYSTEM \<rparr>)"
  using assms
  by (simp add: updateState_def isCompleted_def starSystemCoordinatesEquals_def)

lemma updateState_not_found:
  assumes "state n \<noteq> CLOSE_ENOUGH"
    and "coordinates (model (currentSystem context)) = targetSystemCoordinates n"
    and "getObjectBySystemId (objectId n) (currentSystem context) = None"
  shows "updateState context n = Inl (CouldNotFindObject (objectId n))"
  using assms
  by (simp add: updateState_def isCompleted_def starSystemCoordinatesEquals_def)

lemma code_multiplier_is_spec_multiplier:
  "(case t of
      STAR \<Rightarrow> 3 | TELLURIC_PLANET \<Rightarrow> 3 | TELLURIC_SATELLITE \<Rightarrow> 3 | GAS_PLANET \<Rightarrow> 3
    | MANDELBULB \<Rightarrow> 3 | JULIA_SET \<Rightarrow> 3 | SPACE_STATION \<Rightarrow> 3 | SPACE_ELEVATOR \<Rightarrow> 3
    | NEUTRON_STAR \<Rightarrow> 50 | BLACK_HOLE \<Rightarrow> 10 | OTHER_OBJECT_TYPE k \<Rightarrow> 1)
   = specThresholdMultiplier t"
  by (cases t) (simp_all add: specThresholdMultiplier_def)

lemma updateState_in_system:
  assumes "state n \<noteq> CLOSE_ENOUGH"
    and "coordinates (model (currentSystem context)) = targetSystemCoordinates n"
    and "getObjectBySystemId (objectId n) (currentSystem context) = Some targetObject"
  shows "updateState context n =
           Inr (n\<lparr> state :=
                  if Distance (playerPosition context) (getAbsolutePosition targetObject)
                       < getBoundingRadius targetObject
                           * specThresholdMultiplier (modelType targetObject)
                  then CLOSE_ENOUGH else TOO_FAR_IN_SYSTEM \<rparr>)"
  using assms
  by (simp add: updateState_def isCompleted_def starSystemCoordinatesEquals_def
        code_multiplier_is_spec_multiplier)

lemma example_lookups:
  "getObjectBySystemId exampleId exampleSystem = Some exampleStar"
  "getObjectBySystemId exampleId emptySystem = None"
  "coordinates (model exampleSystem) = 7"
  "coordinates (model emptySystem) = 7"
  "coordinates (model otherSystem) = 8"
  by (simp_all add: getObjectBySystemId_def exampleId_def exampleSystem_def emptySystem_def
        otherSystem_def)

lemma example_node:
  "state (newMissionFlyByNode exampleId) = NOT_IN_SYSTEM"
  "objectId (newMissionFlyByNode exampleId) = exampleId"
  "targetSystemCoordinates (newMissionFlyByNode exampleId) = 7"
  by (simp_all add: newMissionFlyByNode_def exampleId_def)

lemma example_context:
  "currentSystem (exampleContext system a) = system"
  "playerPosition (exampleContext system a) = Vector3 a 0 0"
  by (simp_all add: exampleContext_def)


section \<open>Sticky completion\<close>

text \<open>
  C1. Once a fly-by node is in state \<open>CLOSE_ENOUGH\<close>, every later call of \<open>updateState\<close>,
  in any context and any number of times, returns normally and leaves the node as it is,
  in state \<open>CLOSE_ENOUGH\<close>, and \<open>isCompleted\<close> stays true.
\<close>

theorem flyby_completion_sticky:
  "state n = CLOSE_ENOUGH \<Longrightarrow>
     updateState context n = Inr n \<and> updateStates contexts n = Inr n \<and> isCompleted n"
  by (simp add: updateState_completed updateStates_completed isCompleted_def)

text \<open>
  The completed node of the example, with the player far from the star, then in another
  system, then in a system of the same coordinates where the star is missing.
\<close>

theorem flyby_completion_sticky_witness:
  "state (setState CLOSE_ENOUGH (newMissionFlyByNode exampleId)) = CLOSE_ENOUGH
   \<and> updateState (exampleContext exampleSystem 1000000)
        (setState CLOSE_ENOUGH (newMissionFlyByNode exampleId))
       = Inr (setState CLOSE_ENOUGH (newMissionFlyByNode exampleId))
   \<and> updateStates
        [exampleContext exampleSystem 1000000, exampleContext otherSystem 5,
         exampleContext emptySystem 5]
        (setState CLOSE_ENOUGH (newMissionFlyByNode exampleId))
       = Inr (setState CLOSE_ENOUGH (newMissionFlyByNode exampleId))
   \<and> isCompleted (setState CLOSE_ENOUGH (newMissionFlyByNode exampleId))"
proof -
  have h: "state (setState CLOSE_ENOUGH (newMissionFlyByNode exampleId)) = CLOSE_ENOUGH"
    by (simp add: setState_def)
  show ?thesis
    using h flyby_completion_sticky [OF h, of "exampleContext exampleSystem 1000000"
        "[exampleContext exampleSystem 1000000, exampleContext otherSystem 5,
          exampleContext emptySystem 5]"]
    by blast
qed


section \<open>The proximity threshold\<close>

text \<open>
  C2, as amended. For a node that is not yet completed, whose target resolves in the
  current system to a \<open>STAR\<close> of positive bounding radius \<open>R\<close>: a player at distance
  \<open>2.9 * R\<close> of the target makes the node \<open>CLOSE_ENOUGH\<close>, a player at distance
  \<open>3.1 * R\<close> makes it \<open>TOO_FAR_IN_SYSTEM\<close>; the node is \<open>CLOSE_ENOUGH\<close> exactly when the
  distance is below \<open>3 * R\<close>.
\<close>

theorem flyby_star_threshold:
  assumes "state n \<noteq> CLOSE_ENOUGH"
    and "coordinates (model system) = targetSystemCoordinates n"
    and "getObjectBySystemId (objectId n) system = Some targetObject"
    and "modelType targetObject = STAR"
    and "getBoundingRadius targetObject = R"
    and "0 < R"
    and "Distance p1 (getAbsolutePosition targetObject) = 2.9 * R"
    and "Distance p2 (getAbsolutePosition targetObject) = 3.1 * R"
  shows "updateState \<lparr> currentSystem = system, playerPosition = p1 \<rparr> n
           = Inr (n\<lparr> state := CLOSE_ENOUGH \<rparr>)
       \<and> updateState \<lparr> currentSystem = system, playerPosition = p2 \<rparr> n
           = Inr (n\<lparr> state := TOO_FAR_IN_SYSTEM \<rparr>)
       \<and> updateState \<lparr> currentSystem = system, playerPosition = p \<rparr> n
           = Inr (n\<lparr> state := if Distance p (getAbsolutePosition targetObject) < 3 * R
                                then CLOSE_ENOUGH else TOO_FAR_IN_SYSTEM \<rparr>)"
proof -
  have m: "specThresholdMultiplier (modelType targetObject) = 3"
    using assms(4) by (simp add: specThresholdMultiplier_def)
  have step: "updateState \<lparr> currentSystem = system, playerPosition = q \<rparr> n
           = Inr (n\<lparr> state := if Distance q (getAbsolutePosition targetObject) < 3 * R
                                then CLOSE_ENOUGH else TOO_FAR_IN_SYSTEM \<rparr>)" for q
    using updateState_in_system [of n "\<lparr> currentSystem = system, playerPosition = q \<rparr>"
        targetObject] assms(1-3,5) m
    by (simp add: mult.commute)
  have near: "2.9 * R < 3 * R" and far: "\<not> 3.1 * R < 3 * R"
    using assms(6) by simp_all
  show ?thesis
    using step [of p1] step [of p2] step [of p] near far assms(7,8) by simp
qed

theorem flyby_star_threshold_witness:
  "state (newMissionFlyByNode exampleId) \<noteq> CLOSE_ENOUGH
   \<and> coordinates (model exampleSystem) = targetSystemCoordinates (newMissionFlyByNode exampleId)
   \<and> getObjectBySystemId (objectId (newMissionFlyByNode exampleId)) exampleSystem
        = Some exampleStar
   \<and> modelType exampleStar = STAR
   \<and> getBoundingRadius exampleStar = 10
   \<and> Distance (Vector3 29 0 0) (getAbsolutePosition exampleStar) = 2.9 * 10
   \<and> Distance (Vector3 31 0 0) (getAbsolutePosition exampleStar) = 3.1 * 10
   \<and> updateState \<lparr> currentSystem = exampleSystem, playerPosition = Vector3 29 0 0 \<rparr>
        (newMissionFlyByNode exampleId)
       = Inr ((newMissionFlyByNode exampleId)\<lparr> state := CLOSE_ENOUGH \<rparr>)
   \<and> updateState \<lparr> currentSystem = exampleSystem, playerPosition = Vector3 31 0 0 \<rparr>
        (newMissionFlyByNode exampleId)
       = Inr ((newMissionFlyByNode exampleId)\<lparr> state := TOO_FAR_IN_SYSTEM \<rparr>)"
proof -
  have h1: "state (newMissionFlyByNode exampleId) \<noteq> CLOSE_ENOUGH"
    by (simp add: example_node)
  have h2: "coordinates (model exampleSystem)
              = targetSystemCoordinates (newMissionFlyByNode exampleId)"
    by (simp add: example_node example_lookups)
  have h3: "getObjectBySystemId (objectId (newMissionFlyByNode exampleId)) exampleSystem
              = Some exampleStar"
    by (simp add: example_node example_lookups)
  have h4: "modelType exampleStar = STAR" and h5: "getBoundingRadius exampleStar = 10"
    by (simp_all add: exampleStar_def)
  have h6: "(0::real) < 10" by simp
  have pos: "getAbsolutePosition exampleStar = Vector3 0 0 0"
    by (simp add: exampleStar_def)
  have h7: "Distance (Vector3 29 0 0) (getAbsolutePosition exampleStar) = 2.9 * 10"
    unfolding pos Distance_on_axis by simp
  have h8: "Distance (Vector3 31 0 0) (getAbsolutePosition exampleStar) = 3.1 * 10"
    unfolding pos Distance_on_axis by simp
  show ?thesis
    using h1 h2 h3 h4 h5 h7 h8 flyby_star_threshold [OF h1 h2 h3 h4 h5 h6 h7 h8]
    by blast
qed

text \<open>
  C2 as the specification words it fails: with the star of radius 10 resolved in the
  current system, the player at distance 29 (2.9 radii) makes the fresh node
  \<open>CLOSE_ENOUGH\<close>, not \<open>TOO_FAR_IN_SYSTEM\<close>, and the player at distance 31 (3.1 radii)
  makes it \<open>TOO_FAR_IN_SYSTEM\<close>, not \<open>CLOSE_ENOUGH\<close>.
\<close>

theorem flyby_star_threshold_counterexample:
  "state (newMissionFlyByNode exampleId) \<noteq> CLOSE_ENOUGH
   \<and> coordinates (model (currentSystem (exampleContext exampleSystem 29)))
        = targetSystemCoordinates (newMissionFlyByNode exampleId)
   \<and> getObjectBySystemId (objectId (newMissionFlyByNode exampleId))
        (currentSystem (exampleContext exampleSystem 29)) = Some exampleStar
   \<and> modelType exampleStar = STAR
   \<and> Distance (playerPosition (exampleContext exampleSystem 29))
        (getAbsolutePosition exampleStar) = 2.9 * getBoundingRadius exampleStar
   \<and> Distance (playerPosition (exampleContext exampleSystem 31))
        (getAbsolutePosition exampleStar) = 3.1 * getBoundingRadius exampleStar
   \<and> updateState (exampleContext exampleSystem 29) (newMissionFlyByNode exampleId)
        \<noteq> Inr ((newMissionFlyByNode exampleId)\<lparr> state := TOO_FAR_IN_SYSTEM \<rparr>)
   \<and> updateState (exampleContext exampleSystem 29) (newMissionFlyByNode exampleId)
        = Inr ((newMissionFlyByNode exampleId)\<lparr> state := CLOSE_ENOUGH \<rparr>)
   \<and> updateState (exampleContext exampleSystem 31) (newMissionFlyByNode exampleId)
        \<noteq> Inr ((newMissionFlyByNode exampleId)\<lparr> state := CLOSE_ENOUGH \<rparr>)
   \<and> updateState (exampleContext exampleSystem 31) (newMissionFlyByNode exampleId)
        = Inr ((newMissionFlyByNode exampleId)\<lparr> state := TOO_FAR_IN_SYSTEM \<rparr>)"
proof -
  have pos: "getAbsolutePosition exampleStar = Vector3 0 0 0"
    and rad: "getBoundingRadius exampleStar = 10"
    and ty: "modelType exampleStar = STAR"
    by (simp_all add: exampleStar_def)
  have run: "updateState (exampleContext exampleSystem a) (newMissionFlyByNode exampleId)
      = Inr ((newMissionFlyByNode exampleId)\<lparr> state :=
               if \<bar>a\<bar> < 30 then CLOSE_ENOUGH else TOO_FAR_IN_SYSTEM \<rparr>)" for a
    using updateState_in_system [of "newMissionFlyByNode exampleId"
        "exampleContext exampleSystem a" exampleStar]
    by (simp add: example_node example_lookups example_context pos rad ty
          Distance_on_axis specThresholdMultiplier_def del: Distance.simps)
  have differ: "(newMissionFlyByNode exampleId)\<lparr> state := CLOSE_ENOUGH \<rparr>
                  \<noteq> (newMissionFlyByNode exampleId)\<lparr> state := TOO_FAR_IN_SYSTEM \<rparr>"
    by (simp add: newMissionFlyByNode_def)
  show ?thesis
    using run [of 29] run [of 31] differ
    by (simp add: example_node example_lookups example_context pos rad ty
          Distance_on_axis del: Distance.simps)
qed

text \<open>
  C3. For a node that is not yet completed and whose target resolves in the current
  system, \<open>updateState\<close> compares the distance of the player to the target with the
  bounding radius of the target times the multiplier that the lookup table of the
  specification gives for the type of the target: 3 for the eight types listed, 50 for a
  neutron star, 10 for a black hole, 1 for every other type.
\<close>

theorem flyby_threshold_table:
  assumes "state n \<noteq> CLOSE_ENOUGH"
    and "coordinates (model (currentSystem context)) = targetSystemCoordinates n"
    and "getObjectBySystemId (objectId n) (currentSystem context) = Some targetObject"
  shows "updateState context n =
           Inr (n\<lparr> state :=
                  if Distance (playerPosition context) (getAbsolutePosition targetObject)
                       < getBoundingRadius targetObject
                           * specThresholdMultiplier (modelType targetObject)
                  then CLOSE_ENOUGH else TOO_FAR_IN_SYSTEM \<rparr>)
       \<and> specThresholdMultiplier STAR = 3
       \<and> specThresholdMultiplier TELLURIC_PLANET = 3
       \<and> specThresholdMultiplier TELLURIC_SATELLITE = 3
       \<and> specThresholdMultiplier GAS_PLANET = 3
       \<and> specThresholdMultiplier MANDELBULB = 3
       \<and> specThresholdMultiplier JULIA_SET = 3
       \<and> specThresholdMultiplier SPACE_STATION = 3
       \<and> specThresholdMultiplier SPACE_ELEVATOR = 3
       \<and> specThresholdMultiplier NEUTRON_STAR = 50
       \<and> specThresholdMultiplier BLACK_HOLE = 10
       \<and> specThresholdMultiplier (OTHER_OBJECT_TYPE k) = 1"
  using updateState_in_system [OF assms]
  by (simp add: specThresholdMultiplier_def)

text \<open>
  The neutron star of radius 1 at the local path 1: the player at distance 49 is close
  enough, since the threshold is 50 radii.
\<close>

theorem flyby_threshold_table_witness:
  "state (newMissionFlyByNode (exampleId\<lparr> localPath := 1 \<rparr>)) \<noteq> CLOSE_ENOUGH
   \<and> coordinates (model (currentSystem (exampleContext exampleSystem 49)))
        = targetSystemCoordinates (newMissionFlyByNode (exampleId\<lparr> localPath := 1 \<rparr>))
   \<and> getObjectBySystemId (objectId (newMissionFlyByNode (exampleId\<lparr> localPath := 1 \<rparr>)))
        (currentSystem (exampleContext exampleSystem 49)) = Some exampleNeutronStar
   \<and> updateState (exampleContext exampleSystem 49)
        (newMissionFlyByNode (exampleId\<lparr> localPath := 1 \<rparr>))
       = Inr ((newMissionFlyByNode (exampleId\<lparr> localPath := 1 \<rparr>))\<lparr> state := CLOSE_ENOUGH \<rparr>)"
proof -
  let ?n = "newMissionFlyByNode (exampleId\<lparr> localPath := 1 \<rparr>)"
  let ?c = "exampleContext exampleSystem 49"
  have h1: "state ?n \<noteq> CLOSE_ENOUGH"
    by (simp add: newMissionFlyByNode_def)
  have h2: "coordinates (model (currentSystem ?c)) = targetSystemCoordinates ?n"
    by (simp add: newMissionFlyByNode_def exampleId_def example_context example_lookups)
  have h3: "getObjectBySystemId (objectId ?n) (currentSystem ?c) = Some exampleNeutronStar"
    by (simp add: newMissionFlyByNode_def exampleId_def example_context
          getObjectBySystemId_def exampleSystem_def)
  have d: "Distance (playerPosition ?c) (getAbsolutePosition exampleNeutronStar) = 49"
    by (simp add: example_context exampleNeutronStar_def Distance_on_axis
          del: Distance.simps)
  have r: "getBoundingRadius exampleNeutronStar = 1"
    and t: "modelType exampleNeutronStar = NEUTRON_STAR"
    by (simp_all add: exampleNeutronStar_def)
  show ?thesis
    using h1 h2 h3 flyby_threshold_table [OF h1 h2 h3, of 0]
    by (simp add: d r t del: Distance.simps)
qed


section \<open>Wrong system, missing target, repeated calls\<close>

text \<open>
  C5, as amended. For a node that is not yet completed and a context whose current
  system has other coordinates than the target system of the node, \<open>updateState\<close>
  returns normally with the state \<open>NOT_IN_SYSTEM\<close>, whatever the position of the player
  and whatever objects the current system holds.
\<close>

theorem flyby_wrong_system:
  assumes "\<not> isCompleted n"
    and "coordinates (model (currentSystem context)) \<noteq> targetSystemCoordinates n"
  shows "updateState context n = Inr (n\<lparr> state := NOT_IN_SYSTEM \<rparr>)"
  using assms updateState_not_in_system [of n "context"]
  by (simp add: isCompleted_def)

theorem flyby_wrong_system_witness:
  "\<not> isCompleted (setState TOO_FAR_IN_SYSTEM (newMissionFlyByNode exampleId))
   \<and> coordinates (model (currentSystem (exampleContext otherSystem 0)))
        \<noteq> targetSystemCoordinates (setState TOO_FAR_IN_SYSTEM (newMissionFlyByNode exampleId))
   \<and> updateState (exampleContext otherSystem 0)
        (setState TOO_FAR_IN_SYSTEM (newMissionFlyByNode exampleId))
       = Inr (newMissionFlyByNode exampleId)"
proof -
  let ?n = "setState TOO_FAR_IN_SYSTEM (newMissionFlyByNode exampleId)"
  let ?c = "exampleContext otherSystem 0"
  have h1: "\<not> isCompleted ?n"
    by (simp add: isCompleted_def setState_def)
  have h2: "coordinates (model (currentSystem ?c)) \<noteq> targetSystemCoordinates ?n"
    by (simp add: example_context example_lookups setState_def example_node)
  have undo: "(setState TOO_FAR_IN_SYSTEM (newMissionFlyByNode exampleId))\<lparr> state := NOT_IN_SYSTEM \<rparr>
                = newMissionFlyByNode exampleId"
    by (simp add: setState_def newMissionFlyByNode_def)
  show ?thesis
    using h1 h2 flyby_wrong_system [OF h1 h2] by (simp only: undo) blast
qed

text \<open>
  C5 as the specification words it fails for a completed node: in a system of other
  coordinates the node stays \<open>CLOSE_ENOUGH\<close>.
\<close>

theorem flyby_wrong_system_counterexample:
  "coordinates (model (currentSystem (exampleContext otherSystem 0)))
     \<noteq> targetSystemCoordinates (setState CLOSE_ENOUGH (newMissionFlyByNode exampleId))
   \<and> updateState (exampleContext otherSystem 0)
        (setState CLOSE_ENOUGH (newMissionFlyByNode exampleId))
       = Inr (setState CLOSE_ENOUGH (newMissionFlyByNode exampleId))
   \<and> state (setState CLOSE_ENOUGH (newMissionFlyByNode exampleId)) = CLOSE_ENOUGH
   \<and> state (setState CLOSE_ENOUGH (newMissionFlyByNode exampleId)) \<noteq> NOT_IN_SYSTEM"
proof -
  let ?n = "setState CLOSE_ENOUGH (newMissionFlyByNode exampleId)"
  have st: "state ?n = CLOSE_ENOUGH"
    by (simp add: setState_def)
  have co: "coordinates (model (currentSystem (exampleContext otherSystem 0)))
              \<noteq> targetSystemCoordinates ?n"
    by (simp add: example_context example_lookups setState_def example_node)
  show ?thesis
    using st co updateState_completed [OF st, of "exampleContext otherSystem 0"] by simp
qed

text \<open>
  C7, as amended. \<open>updateState\<close> throws exactly when the node is not yet completed, the
  coordinates of the current system are those of the target system, and the target
  object does not resolve in the current system; the error thrown is then the one that
  names the object identifier. In every other case it returns normally.
\<close>

theorem flyby_throws_iff_target_missing:
  "(updateState context n = Inl e)
     = (\<not> isCompleted n
        \<and> coordinates (model (currentSystem context)) = targetSystemCoordinates n
        \<and> getObjectBySystemId (objectId n) (currentSystem context) = None
        \<and> e = CouldNotFindObject (objectId n))"
proof (cases "state n = CLOSE_ENOUGH")
  case True
  then show ?thesis
    by (simp add: updateState_completed isCompleted_def)
next
  case pending: False
  show ?thesis
  proof (cases "coordinates (model (currentSystem context)) = targetSystemCoordinates n")
    case False
    then show ?thesis
      using updateState_not_in_system [OF pending False] by simp
  next
    case same: True
    show ?thesis
    proof (cases "getObjectBySystemId (objectId n) (currentSystem context)")
      case None
      then show ?thesis
        using updateState_not_found [OF pending same None] pending same
        by (auto simp: isCompleted_def)
    next
      case (Some targetObject)
      then show ?thesis
        using updateState_in_system [OF pending same Some] by simp
    qed
  qed
qed

theorem flyby_throws_iff_target_missing_witness:
  "\<not> isCompleted (newMissionFlyByNode exampleId)
   \<and> coordinates (model (currentSystem (exampleContext emptySystem 0)))
        = targetSystemCoordinates (newMissionFlyByNode exampleId)
   \<and> getObjectBySystemId (objectId (newMissionFlyByNode exampleId))
        (currentSystem (exampleContext emptySystem 0)) = None
   \<and> updateState (exampleContext emptySystem 0) (newMissionFlyByNode exampleId)
       = Inl (CouldNotFindObject exampleId)"
proof -
  let ?n = "newMissionFlyByNode exampleId"
  let ?c = "exampleContext emptySystem 0"
  have h1: "\<not> isCompleted ?n"
    by (simp add: isCompleted_def example_node)
  have h2: "coordinates (model (currentSystem ?c)) = targetSystemCoordinates ?n"
    by (simp add: example_context example_lookups example_node)
  have h3: "getObjectBySystemId (objectId ?n) (currentSystem ?c) = None"
    by (simp add: example_context example_lookups example_node)
  have "updateState ?c ?n = Inl (CouldNotFindObject (objectId ?n))"
    using h1 h2 h3 flyby_throws_iff_target_missing [of ?c ?n "CouldNotFindObject (objectId ?n)"]
    by blast
  then show ?thesis
    using h1 h2 h3 by (simp add: example_node)
qed

text \<open>
  C7 as the specification words it fails for a completed node: in a system with the
  coordinates of the target where the target does not resolve, \<open>updateState\<close> returns
  normally.
\<close>

theorem flyby_throws_counterexample:
  "coordinates (model (currentSystem (exampleContext emptySystem 0)))
     = targetSystemCoordinates (setState CLOSE_ENOUGH (newMissionFlyByNode exampleId))
   \<and> getObjectBySystemId (objectId (setState CLOSE_ENOUGH (newMissionFlyByNode exampleId)))
        (currentSystem (exampleContext emptySystem 0)) = None
   \<and> updateState (exampleContext emptySystem 0)
        (setState CLOSE_ENOUGH (newMissionFlyByNode exampleId))
       = Inr (setState CLOSE_ENOUGH (newMissionFlyByNode exampleId))"
proof -
  let ?n = "setState CLOSE_ENOUGH (newMissionFlyByNode exampleId)"
  have st: "state ?n = CLOSE_ENOUGH"
    by (simp add: setState_def)
  have co: "coordinates (model (currentSystem (exampleContext emptySystem 0)))
              = targetSystemCoordinates ?n"
    by (simp add: example_context example_lookups setState_def example_node)
  have nf: "getObjectBySystemId (objectId ?n) (currentSystem (exampleContext emptySystem 0))
              = None"
    by (simp add: example_context example_lookups setState_def example_node)
  show ?thesis
    using co nf updateState_completed [OF st, of "exampleContext emptySystem 0"] by simp
qed

text \<open>
  C8. A second call of \<open>updateState\<close> in the same context has the outcome of the first:
  with the node as the first call left it, the second call returns that very node, or
  throws the same error when the first call threw. So the node after two calls is the
  node after one call.
\<close>

theorem flyby_update_idempotent:
  "updateState context (nodeAfterUpdate context n) = updateState context n
   \<and> nodeAfterUpdate context (nodeAfterUpdate context n) = nodeAfterUpdate context n"
proof -
  have first: "updateState context (nodeAfterUpdate context n) = updateState context n"
  proof (cases "state n = CLOSE_ENOUGH")
    case True
    then show ?thesis
      by (simp add: nodeAfterUpdate_def updateState_completed)
  next
    case pending: False
    show ?thesis
    proof (cases "coordinates (model (currentSystem context)) = targetSystemCoordinates n")
      case False
      have "updateState context (n\<lparr> state := NOT_IN_SYSTEM \<rparr>)
              = Inr (n\<lparr> state := NOT_IN_SYSTEM \<rparr>)"
        using updateState_not_in_system [of "n\<lparr> state := NOT_IN_SYSTEM \<rparr>" "context"] False
        by simp
      then show ?thesis
        using updateState_not_in_system [OF pending False] by (simp add: nodeAfterUpdate_def)
    next
      case same: True
      show ?thesis
      proof (cases "getObjectBySystemId (objectId n) (currentSystem context)")
        case None
        then show ?thesis
          using updateState_not_found [OF pending same None] by (simp add: nodeAfterUpdate_def)
      next
        case (Some targetObject)
        let ?near = "Distance (playerPosition context) (getAbsolutePosition targetObject)
                       < getBoundingRadius targetObject
                           * specThresholdMultiplier (modelType targetObject)"
        show ?thesis
        proof (cases ?near)
          case True
          then have one: "updateState context n = Inr (n\<lparr> state := CLOSE_ENOUGH \<rparr>)"
            using updateState_in_system [OF pending same Some] by simp
          then show ?thesis
            using updateState_completed [of "n\<lparr> state := CLOSE_ENOUGH \<rparr>" "context"]
            by (simp add: nodeAfterUpdate_def)
        next
          case False
          then have one: "updateState context n = Inr (n\<lparr> state := TOO_FAR_IN_SYSTEM \<rparr>)"
            using updateState_in_system [OF pending same Some] by simp
          have "updateState context (n\<lparr> state := TOO_FAR_IN_SYSTEM \<rparr>)
                  = Inr (n\<lparr> state := TOO_FAR_IN_SYSTEM \<rparr>)"
            using updateState_in_system [of "n\<lparr> state := TOO_FAR_IN_SYSTEM \<rparr>" "context"
                targetObject] same Some False
            by simp
          then show ?thesis
            using one by (simp add: nodeAfterUpdate_def)
        qed
      qed
    qed
  qed
  then show ?thesis
    unfolding nodeAfterUpdate_def
    by (cases "updateState context n") simp_all
qed


section \<open>Equality of nodes\<close>

lemma universeObjectIdEquals_iff:
  "universeObjectIdEquals a b = (a = b)"
  by (cases a, cases b) (simp add: universeObjectIdEquals_def starSystemCoordinatesEquals_def)

text \<open>
  C9. \<open>equals\<close> holds between a fly-by node and itself, whatever the state of either
  copy; between two fly-by nodes it holds exactly when their object identifiers are
  equal, so it fails for two identifiers of the same star system with different local
  paths; and it fails against a node of any other variant.
\<close>

theorem flyby_equals:
  "equals n (FlyByNode n)
   \<and> equals n (FlyByNode (setState s n))
   \<and> equals n (FlyByNode m) = (objectId n = objectId m)
   \<and> equals (newMissionFlyByNode id1) (FlyByNode (newMissionFlyByNode id2)) = (id1 = id2)
   \<and> (starSystemCoordinates id1 = starSystemCoordinates id2 \<and> localPath id1 \<noteq> localPath id2
        \<longrightarrow> \<not> equals (newMissionFlyByNode id1) (FlyByNode (newMissionFlyByNode id2)))
   \<and> \<not> equals n (OtherVariantNode v)"
  by (auto simp: equals_def universeObjectIdEquals_iff setState_def newMissionFlyByNode_def)

theorem flyby_equals_witness:
  "starSystemCoordinates exampleId = starSystemCoordinates (exampleId\<lparr> localPath := 1 \<rparr>)
   \<and> localPath exampleId \<noteq> localPath (exampleId\<lparr> localPath := 1 \<rparr>)
   \<and> \<not> equals (newMissionFlyByNode exampleId)
          (FlyByNode (newMissionFlyByNode (exampleId\<lparr> localPath := 1 \<rparr>))
             :: (int, nat, unit) MissionNode)
   \<and> equals (newMissionFlyByNode exampleId)
        (FlyByNode (setState CLOSE_ENOUGH (newMissionFlyByNode exampleId))
           :: (int, nat, unit) MissionNode)"
proof -
  have h1: "starSystemCoordinates exampleId
              = starSystemCoordinates (exampleId\<lparr> localPath := 1 \<rparr>)"
    by simp
  have h2: "localPath exampleId \<noteq> localPath (exampleId\<lparr> localPath := 1 \<rparr>)"
    by (simp add: exampleId_def)
  show ?thesis
    using h1 h2
      flyby_equals [of "newMissionFlyByNode exampleId" CLOSE_ENOUGH
        "newMissionFlyByNode exampleId" exampleId "exampleId\<lparr> localPath := 1 \<rparr>" "()"]
    by blast
qed


section \<open>What the operations change\<close>

lemma updateState_only_state:
  "updateState context n = Inr n' \<Longrightarrow> n' = n\<lparr> state := state n' \<rparr>"
  by (auto simp: updateState_def Let_def split: if_splits option.splits)

lemma nodeAfterUpdate_only_state:
  "nodeAfterUpdate context n = n\<lparr> state := state (nodeAfterUpdate context n) \<rparr>"
proof (cases "updateState context n")
  case (Inl e)
  then show ?thesis by (simp add: nodeAfterUpdate_def)
next
  case (Inr n')
  then show ?thesis
    using updateState_only_state [OF Inr] by (simp add: nodeAfterUpdate_def)
qed

lemma perform_only_state:
  "perform operation n = n\<lparr> state := state (perform operation n) \<rparr>"
proof (cases operation)
  case (UpdateState c)
  then show ?thesis
    using nodeAfterUpdate_only_state [of c n] by simp
qed (simp_all add: setState_def)

lemma perform_keeps_target:
  "objectId (perform operation n) = objectId n
   \<and> targetSystemCoordinates (perform operation n) = targetSystemCoordinates n"
proof -
  have "objectId (n\<lparr> state := s \<rparr>) = objectId n
        \<and> targetSystemCoordinates (n\<lparr> state := s \<rparr>) = targetSystemCoordinates n" for s
    by simp
  then show ?thesis
    using perform_only_state [of operation n] by metis
qed

lemma performAll_keeps_target:
  "objectId (performAll operations n) = objectId n
   \<and> targetSystemCoordinates (performAll operations n) = targetSystemCoordinates n"
  by (induction operations arbitrary: n) (simp_all add: perform_keeps_target)

text \<open>
  C10. A fresh node is in state \<open>NOT_IN_SYSTEM\<close>, is not completed, and serializes with
  no children. After any sequence of operations on a fresh node the object identifier is
  the one given to the constructor, the target system coordinates are those of the
  identifier, and \<open>getTargetSystems\<close> is the list of these coordinates alone. An
  operation other than \<open>setState\<close> and \<open>updateState\<close> leaves the node as it is, and every
  operation leaves all fields but the state as they are.
\<close>

theorem flyby_frame:
  "state (newMissionFlyByNode oid) = NOT_IN_SYSTEM
   \<and> \<not> isCompleted (newMissionFlyByNode oid)
   \<and> ser_children (serialize (newMissionFlyByNode oid)) = []
   \<and> objectId (performAll operations (newMissionFlyByNode oid)) = oid
   \<and> targetSystemCoordinates (performAll operations (newMissionFlyByNode oid))
        = starSystemCoordinates oid
   \<and> getTargetSystems (performAll operations (newMissionFlyByNode oid))
        = [starSystemCoordinates oid]
   \<and> ((\<forall>s. operation \<noteq> SetState s) \<and> (\<forall>context. operation \<noteq> UpdateState context)
        \<longrightarrow> perform operation n = n)
   \<and> perform operation n = n\<lparr> state := state (perform operation n) \<rparr>"
proof -
  have fresh: "state (newMissionFlyByNode oid) = NOT_IN_SYSTEM"
    "\<not> isCompleted (newMissionFlyByNode oid)"
    "ser_children (serialize (newMissionFlyByNode oid)) = []"
    by (simp_all add: newMissionFlyByNode_def isCompleted_def serialize_def)
  have kept: "objectId (performAll operations (newMissionFlyByNode oid)) = oid"
    "targetSystemCoordinates (performAll operations (newMissionFlyByNode oid))
       = starSystemCoordinates oid"
    using performAll_keeps_target [of operations "newMissionFlyByNode oid"]
    by (simp_all add: newMissionFlyByNode_def)
  have readonly: "(\<forall>s. operation \<noteq> SetState s)
      \<and> (\<forall>context. operation \<noteq> UpdateState context) \<longrightarrow> perform operation n = n"
    by (cases operation) simp_all
  show ?thesis
    using fresh kept readonly perform_only_state [of operation n]
    by (simp add: getTargetSystems_def)
qed

text \<open>
  A run through every operation, with a completed fly-by in between; the last operation
  of the run, \<open>serialize\<close>, changes nothing.
\<close>

theorem flyby_frame_witness:
  "objectId (performAll
      [IsCompleted, UpdateState (exampleContext exampleSystem 5), Equals (OtherVariantNode ()),
       SetState TOO_FAR_IN_SYSTEM, Describe 8, DescribeNextTask (exampleContext otherSystem 5),
       UpdateState (exampleContext emptySystem 5), GetTargetSystems, Serialize]
      (newMissionFlyByNode exampleId)) = exampleId
   \<and> getTargetSystems (performAll
      [IsCompleted, UpdateState (exampleContext exampleSystem 5), Equals (OtherVariantNode ()),
       SetState TOO_FAR_IN_SYSTEM, Describe 8, DescribeNextTask (exampleContext otherSystem 5),
       UpdateState (exampleContext emptySystem 5), GetTargetSystems, Serialize]
      (newMissionFlyByNode exampleId)) = [7]
   \<and> perform (Serialize :: (int, nat, unit) operation) (newMissionFlyByNode exampleId)
       = newMissionFlyByNode exampleId"
proof -
  have h: "(\<forall>s. (Serialize :: (int, nat, unit) operation) \<noteq> SetState s)
           \<and> (\<forall>context. (Serialize :: (int, nat, unit) operation) \<noteq> UpdateState context)"
    by simp
  have c: "starSystemCoordinates exampleId = 7"
    by (simp add: exampleId_def)
  show ?thesis
    using h flyby_frame [of exampleId
        "[IsCompleted, UpdateState (exampleContext exampleSystem 5),
          Equals (OtherVariantNode ()), SetState TOO_FAR_IN_SYSTEM, Describe 8,
          DescribeNextTask (exampleContext otherSystem 5),
          UpdateState (exampleContext emptySystem 5), GetTargetSystems, Serialize]"
        "Serialize :: (int, nat, unit) operation" "newMissionFlyByNode exampleId"]
    unfolding c by blast
qed


section \<open>Serialization\<close>





section \<open>Contact stations\<close>











end
